theory Spec2Isabelle
  imports Complex_Main "HOL-Library.Sublist"
begin

section \<open>Security classification of a resolved location (Inventory.tsx, formatLocationInfo)\<close>

text \<open>
  The renderer receives, for every asset, an optional \<open>resolvedLocation\<close> object.  Its
  \<open>solarSystem\<close> and \<open>region\<close> members are optional, and so is the \<open>security\<close> number of the
  solar system (the code tests it against \<open>undefined\<close>).  Security values are JavaScript
  numbers; on numbers that are not NaN the comparisons \<open>>=\<close> and \<open>>\<close> are the order of the
  reals, which is how they are read here.  \<open>locationType\<close> is a string, matched by a
  \<open>switch\<close> with a \<open>default\<close> branch.
\<close>

record solar_system_ref =
  ss_id :: int
  ss_name :: string
  ss_security :: "real option"

record region_ref =
  rg_id :: int
  rg_name :: string

record resolved_location =
  rl_locationId :: int
  rl_locationName :: string
  rl_locationType :: string
  rl_solarSystem :: "solar_system_ref option"
  rl_region :: "region_ref option"

text \<open>
  The local variable \<open>securityClass\<close> of \<open>formatLocationInfo\<close>: it stays the empty string
  unless \<open>solarSystem?.security !== undefined\<close>.
\<close>

definition securityClass :: "resolved_location \<Rightarrow> string" where
  "securityClass rl =
     (case rl_solarSystem rl of
        None \<Rightarrow> []
      | Some sys \<Rightarrow>
          (case ss_security sys of
             None \<Rightarrow> []
           | Some s \<Rightarrow>
               if s \<ge> 0.5 then ''high-sec''
               else if s > 0.0 then ''low-sec'' else ''null-sec''))"

text \<open>
  The \<open>className\<close> member of the object \<open>formatLocationInfo\<close> returns.  The \<open>text\<close> member is
  display formatting and is left out, except for one effect: in the station and solar-system
  branches the text calls \<open>solarSystem.security.toFixed(1)\<close>, which throws a TypeError when
  the security is undefined; that is the result \<open>None\<close>.
\<close>

definition formatLocationInfo_className :: "resolved_location option \<Rightarrow> string option" where
  "formatLocationInfo_className r =
     (case r of
        None \<Rightarrow> Some ''unknown''
      | Some rl \<Rightarrow>
          if rl_locationType rl = ''station'' \<or> rl_locationType rl = ''solar_system'' then
            (case (rl_solarSystem rl, rl_region rl) of
               (Some sys, Some rg) \<Rightarrow>
                 (if ss_security sys = None then None else Some (securityClass rl))
             | _ \<Rightarrow> Some ''unknown'')
          else if rl_locationType rl = ''structure'' then Some ''structure''
          else Some ''unknown'')"

text \<open>A station in a solar system of the given security, with a region: a sample input.\<close>

definition station_with_security :: "real \<Rightarrow> resolved_location" where
  "station_with_security s =
     \<lparr> rl_locationId = 60003760, rl_locationName = ''Jita IV - Moon 4'',
       rl_locationType = ''station'',
       rl_solarSystem = Some \<lparr> ss_id = 30000142, ss_name = ''Jita'', ss_security = Some s \<rparr>,
       rl_region = Some \<lparr> rg_id = 10000002, rg_name = ''The Forge'' \<rparr> \<rparr>"

text \<open>Two more sample inputs: a player structure whose solar system is known, and a
  station whose region could not be resolved.\<close>

definition structure_with_security :: "real \<Rightarrow> resolved_location" where
  "structure_with_security s =
     \<lparr> rl_locationId = 1035466617946, rl_locationName = ''Perimeter - Tranquility Trading Tower'',
       rl_locationType = ''structure'',
       rl_solarSystem = Some \<lparr> ss_id = 30000144, ss_name = ''Perimeter'', ss_security = Some s \<rparr>,
       rl_region = Some \<lparr> rg_id = 10000002, rg_name = ''The Forge'' \<rparr> \<rparr>"

definition station_without_region :: "real \<Rightarrow> resolved_location" where
  "station_without_region s =
     \<lparr> rl_locationId = 60003760, rl_locationName = ''Jita IV - Moon 4'',
       rl_locationType = ''station'',
       rl_solarSystem = Some \<lparr> ss_id = 30000142, ss_name = ''Jita'', ss_security = Some s \<rparr>,
       rl_region = None \<rparr>"

section \<open>The request pacing queue (esi-client.ts, addToRateLimitQueue / processRateLimitQueue)\<close>

text \<open>
  The client keeps an array of pending \<open>resolve\<close> callbacks and a flag.  JavaScript runs each
  callback to completion, so the behaviour of the queue under any number of concurrent callers
  is the behaviour under every sequence of two kinds of events: a caller admits a request
  (\<open>addToRateLimitQueue\<close>), or the timer set by \<open>processRateLimitQueue\<close> fires.  A request is a
  number naming its \<open>resolve\<close> callback; \<open>released\<close> logs the callbacks in the order they were
  called, and \<open>pendingTimers\<close> counts the timeouts that are set and have not fired.
\<close>

record queue_state =
  rateLimitQueue :: "nat list"
  isProcessingQueue :: bool
  pendingTimers :: nat
  released :: "nat list"

definition initial_queue :: queue_state where
  "initial_queue =
     \<lparr> rateLimitQueue = [], isProcessingQueue = False, pendingTimers = 0, released = [] \<rparr>"

definition processRateLimitQueue :: "queue_state \<Rightarrow> queue_state" where
  "processRateLimitQueue st =
     (if isProcessingQueue st \<or> rateLimitQueue st = [] then st
      else
        (case rateLimitQueue st of
           [] \<Rightarrow> st\<lparr> isProcessingQueue := False \<rparr>
         | nxt # rest \<Rightarrow>
             st\<lparr> isProcessingQueue := True, rateLimitQueue := rest,
                 released := released st @ [nxt],
                 pendingTimers := Suc (pendingTimers st) \<rparr>))"

definition addToRateLimitQueue :: "nat \<Rightarrow> queue_state \<Rightarrow> queue_state" where
  "addToRateLimitQueue r st =
     processRateLimitQueue (st\<lparr> rateLimitQueue := rateLimitQueue st @ [r] \<rparr>)"

text \<open>The body of the \<open>setTimeout\<close> callback; it can run only when a timeout is pending.\<close>

definition timer_fires :: "queue_state \<Rightarrow> queue_state" where
  "timer_fires st =
     (if pendingTimers st = 0 then st
      else processRateLimitQueue
             (st\<lparr> pendingTimers := pendingTimers st - 1, isProcessingQueue := False \<rparr>))"

datatype queue_event = Admit nat | TimerFires

fun queue_step :: "queue_state \<Rightarrow> queue_event \<Rightarrow> queue_state" where
  "queue_step st (Admit r) = addToRateLimitQueue r st"
| "queue_step st TimerFires = timer_fires st"

definition run_queue :: "queue_event list \<Rightarrow> queue_state" where
  "run_queue evs = foldl queue_step initial_queue evs"

fun admitted :: "queue_event list \<Rightarrow> nat list" where
  "admitted [] = []"
| "admitted (Admit r # evs) = r # admitted evs"
| "admitted (TimerFires # evs) = admitted evs"

section \<open>Errors\<close>

text \<open>
  Every \<open>throw\<close> of the modelled code is a value of this type.  The constructors stand for the
  messages of the source: \<open>InvalidState\<close> is ``Invalid state parameter - potential CSRF
  attack'', \<open>HttpError n\<close> is the axios error of a response with status \<open>n\<close>, \<open>NetworkFailure\<close>
  an axios error without a response.
\<close>

datatype error =
    InvalidUrl
  | OAuth2Error string string
  | InvalidState
  | NoAuthorizationCode
  | NoCodeVerifier
  | TokenExchangeFailed string
  | TokenRefreshFailed string
  | CharacterInfoFailed string
  | NoAuthenticationFound int
  | FailedToRefreshToken int
  | CharacterNotFoundInStore int
  | HttpError nat
  | NetworkFailure
  | DatabaseNotInitialized
  | ConstraintViolation
  | TooManySqlVariables

section \<open>The credential store (auth-store.ts, AuthStore)\<close>

record stored_character_auth =
  character_id :: int
  character_name :: string
  access_token :: string
  refresh_token :: string
  token_expires :: int
  scopes :: "string list"
  last_updated :: int

text \<open>
  The store file holds \<open>characters\<close>, an object keyed by character id, and the optional
  \<open>last_selected_character\<close>.  The object is an association list with one entry per key,
  in the order the keys were first assigned.  \<open>Object.keys\<close> lists the array-index keys (the
  integers from 0 up to \<open>2^32 - 2\<close>) first, in ascending order, and then every other key in
  insertion order.  AES encryption and decryption with
  the store's key come from CryptoJS and are parameters: \<open>encrypt\<close> is total, \<open>decrypt\<close>
  returns \<open>None\<close> where \<open>bytes.toString(CryptoJS.enc.Utf8)\<close> throws.
\<close>

record crypto =
  encrypt :: "string \<Rightarrow> string"
  decrypt :: "string \<Rightarrow> string option"

record auth_store =
  characters :: "(int \<times> stored_character_auth) list"
  last_selected_character :: "int option"

definition is_array_index :: "int \<Rightarrow> bool" where
  "is_array_index k = (0 \<le> k \<and> k < 4294967295)"

definition object_keys :: "(int \<times> 'a) list \<Rightarrow> int list" where
  "object_keys m =
     sort (filter is_array_index (remdups (map fst m))) @
     filter (\<lambda>k. \<not> is_array_index k) (remdups (map fst m))"

fun set_key :: "int \<Rightarrow> 'a \<Rightarrow> (int \<times> 'a) list \<Rightarrow> (int \<times> 'a) list" where
  "set_key k v [] = [(k, v)]"
| "set_key k v ((k', v') # m) = (if k = k' then (k, v) # m else (k', v') # set_key k v m)"

definition delete_key :: "int \<Rightarrow> (int \<times> 'a) list \<Rightarrow> (int \<times> 'a) list" where
  "delete_key k m = filter (\<lambda>kv. fst kv \<noteq> k) m"

text \<open>JavaScript truthiness of an optional number and of a string.\<close>

definition truthy_num :: "int option \<Rightarrow> bool" where
  "truthy_num x = (case x of None \<Rightarrow> False | Some n \<Rightarrow> n \<noteq> 0)"


definition getCharacterAuth :: "crypto \<Rightarrow> auth_store \<Rightarrow> int \<Rightarrow> stored_character_auth option" where
  "getCharacterAuth cr st characterId =
     (case map_of (characters st) characterId of
        None \<Rightarrow> None
      | Some encryptedAuth \<Rightarrow>
          (case (decrypt cr (access_token encryptedAuth),
                 decrypt cr (refresh_token encryptedAuth)) of
             (Some a, Some r) \<Rightarrow> Some (encryptedAuth\<lparr> access_token := a, refresh_token := r \<rparr>)
           | _ \<Rightarrow> None))"

text \<open>
  \<open>updateCharacterAuth\<close> as \<open>refreshCharacterToken\<close> calls it: the update carries the two
  tokens, the expiry and the update time.  A token is encrypted only when it is a non-empty
  string (\<open>if (updates.access_token)\<close>).
\<close>

record token_updates =
  upd_access_token :: string
  upd_refresh_token :: string
  upd_token_expires :: int
  upd_last_updated :: int

definition updateCharacterAuth ::
  "crypto \<Rightarrow> int \<Rightarrow> token_updates \<Rightarrow> auth_store \<Rightarrow> error + auth_store" where
  "updateCharacterAuth cr characterId updates st =
     (case map_of (characters st) characterId of
        None \<Rightarrow> Inl (CharacterNotFoundInStore characterId)
      | Some existingAuth \<Rightarrow>
          Inr (st\<lparr> characters :=
                 set_key characterId
                   (existingAuth\<lparr>
                      access_token :=
                        (if upd_access_token updates \<noteq> [] then encrypt cr (upd_access_token updates)
                         else upd_access_token updates),
                      refresh_token :=
                        (if upd_refresh_token updates \<noteq> [] then encrypt cr (upd_refresh_token updates)
                         else upd_refresh_token updates),
                      token_expires := upd_token_expires updates,
                      last_updated := upd_last_updated updates \<rparr>)
                   (characters st) \<rparr>))"

definition removeCharacterAuth :: "int \<Rightarrow> auth_store \<Rightarrow> auth_store" where
  "removeCharacterAuth characterId st =
     (let chars = delete_key characterId (characters st);
          st1 = st\<lparr> characters := chars \<rparr>
      in if last_selected_character st1 = Some characterId then
           (case object_keys chars of
              [] \<Rightarrow> st1\<lparr> last_selected_character := None \<rparr>
            | k # _ \<Rightarrow> st1\<lparr> last_selected_character := Some k \<rparr>)
         else st1)"

text \<open>\<open>now\<close> is the value of \<open>Date.now()\<close>, in milliseconds.\<close>

definition AuthStore_isTokenExpired :: "crypto \<Rightarrow> auth_store \<Rightarrow> int \<Rightarrow> int \<Rightarrow> bool" where
  "AuthStore_isTokenExpired cr st now characterId =
     (case getCharacterAuth cr st characterId of
        None \<Rightarrow> True
      | Some auth \<Rightarrow> token_expires auth < now + 300000)"

section \<open>The database (db.ts, schema.ts) and its services\<close>

text \<open>
  The module variable \<open>db\<close> of db.ts is \<open>None\<close> until the database is initialised, and
  \<open>getDatabase\<close> throws then.  Two tables matter here.  Of \<open>characters\<close> the columns the
  services below read or write are kept; the profile columns (corporation, birthday, ...) are
  not.  A row of \<open>character_assets\<close> is the inserted record together with its
  auto-incremented \<open>id\<close>, the first component of the pair.  The unique index
  \<open>idx_character_assets_character_item\<close> on \<open>(character_id, item_id)\<close> is part of the
  migration and of \<open>createTablesManually\<close>; foreign keys are switched off by
  \<open>initializeDatabase\<close>.  Of \<open>item_types\<close> only the cached type ids are kept.
  \<open>max_variable_number\<close> is the limit of the SQLite build on the number of parameters bound
  in one statement (\<open>SQLITE_MAX_VARIABLE_NUMBER\<close>); a statement that binds more fails.
\<close>

record character_row =
  ch_characterId :: int
  ch_characterName :: string
  ch_accessToken :: "string option"
  ch_refreshToken :: "string option"
  ch_tokenExpires :: int
  ch_scopesJson :: string
  ch_lastSync :: "int option"
  ch_updatedAt :: int

record new_character_asset =
  ca_characterId :: int
  ca_itemId :: int
  ca_typeId :: int
  ca_quantity :: int
  ca_locationId :: int
  ca_locationFlag :: string
  ca_locationType :: string
  ca_isSingleton :: bool
  ca_isBlueprintCopy :: bool
  ca_syncedAt :: int

type_synonym character_asset = "nat \<times> new_character_asset"

record database =
  characters_table :: "character_row list"
  character_assets_table :: "character_asset list"
  character_assets_seq :: nat
  item_types_table :: "int list"
  max_variable_number :: nat

definition getDatabase :: "database option \<Rightarrow> error + database" where
  "getDatabase db = (case db of None \<Rightarrow> Inl DatabaseNotInitialized | Some d \<Rightarrow> Inr d)"

subsection \<open>CharacterService (character-service.ts)\<close>

definition getCharacter :: "database option \<Rightarrow> int \<Rightarrow> error + character_row option" where
  "getCharacter db cid =
     (case getDatabase db of
        Inl e \<Rightarrow> Inl e
      | Inr d \<Rightarrow> Inr (find (\<lambda>r. ch_characterId r = cid) (characters_table d)))"

text \<open>\<open>now\<close> is \<open>Date.now()\<close> in milliseconds; the column \<open>token_expires\<close> is compared in seconds.\<close>

definition CharacterService_isTokenExpired :: "database option \<Rightarrow> int \<Rightarrow> int \<Rightarrow> error + bool" where
  "CharacterService_isTokenExpired db now cid =
     (case getCharacter db cid of
        Inl e \<Rightarrow> Inl e
      | Inr None \<Rightarrow> Inr True
      | Inr (Some character) \<Rightarrow> Inr (ch_tokenExpires character < now div 1000 + 300))"

definition updateLastSync :: "database option \<Rightarrow> int \<Rightarrow> int \<Rightarrow> (error + unit) \<times> database option" where
  "updateLastSync db now cid =
     (case getDatabase db of
        Inl e \<Rightarrow> (Inl e, db)
      | Inr d \<Rightarrow>
          (Inr (),
           Some (d\<lparr> characters_table :=
                      map (\<lambda>r. if ch_characterId r = cid
                                then r\<lparr> ch_lastSync := Some (now div 1000), ch_updatedAt := now div 1000 \<rparr>
                                else r)
                          (characters_table d) \<rparr>)))"

subsection \<open>AssetService (asset-service.ts)\<close>

record eve_asset =
  item_id :: int
  type_id :: int
  quantity :: int
  location_id :: int
  location_flag :: string
  location_type :: string
  is_singleton :: bool
  is_blueprint_copy :: "bool option"

text \<open>The record \<open>storeCharacterAssets\<close> builds for one asset of the API response.\<close>

definition asset_record :: "int \<Rightarrow> int \<Rightarrow> eve_asset \<Rightarrow> new_character_asset" where
  "asset_record cid now asset =
     \<lparr> ca_characterId = cid, ca_itemId = item_id asset, ca_typeId = type_id asset,
       ca_quantity = quantity asset, ca_locationId = location_id asset,
       ca_locationFlag = location_flag asset, ca_locationType = location_type asset,
       ca_isSingleton = is_singleton asset,
       ca_isBlueprintCopy = (case is_blueprint_copy asset of None \<Rightarrow> False | Some b \<Rightarrow> b),
       ca_syncedAt = now \<rparr>"

definition delete_character_assets :: "int \<Rightarrow> database \<Rightarrow> database" where
  "delete_character_assets cid d =
     d\<lparr> character_assets_table :=
          filter (\<lambda>row. ca_characterId (snd row) \<noteq> cid) (character_assets_table d) \<rparr>"

definition unique_key :: "new_character_asset \<Rightarrow> int \<times> int" where
  "unique_key r = (ca_characterId r, ca_itemId r)"

text \<open>
  One \<open>insert(...).values(batch)\<close>: a single SQL statement.  It fails as a whole, leaving the
  table as it was, when a row of the batch repeats the \<open>(character_id, item_id)\<close> of a stored
  row or of another row of the batch.
\<close>

definition insert_values ::
  "new_character_asset list \<Rightarrow> database \<Rightarrow> (error + unit) \<times> database" where
  "insert_values batch d =
     (if distinct (map unique_key (map snd (character_assets_table d) @ batch)) then
        (Inr (),
         d\<lparr> character_assets_table :=
              character_assets_table d @
                zip [character_assets_seq d + 1 ..< character_assets_seq d + 1 + length batch] batch,
            character_assets_seq := character_assets_seq d + length batch \<rparr>)
      else (Inl ConstraintViolation, d))"

text \<open>The loop \<open>for (let i = 0; i < assetRecords.length; i += batchSize)\<close>, from index \<open>i\<close>.\<close>

function insert_batches ::
  "new_character_asset list \<Rightarrow> nat \<Rightarrow> database \<Rightarrow> (error + unit) \<times> database" where
  "insert_batches assetRecords i d =
     (if i < length assetRecords then
        (case insert_values (take 500 (drop i assetRecords)) d of
           (Inl e, d') \<Rightarrow> (Inl e, d')
         | (Inr u, d') \<Rightarrow> insert_batches assetRecords (i + 500) d')
      else (Inr (), d))"
  by pat_completeness auto
termination
  by (relation "measure (\<lambda>(assetRecords, i, d). length assetRecords - i)") auto

declare insert_batches.simps [simp del]

text \<open>\<open>now\<close> is \<open>Date.now()\<close> in milliseconds.\<close>

definition storeCharacterAssets ::
  "database option \<Rightarrow> int \<Rightarrow> int \<Rightarrow> eve_asset list \<Rightarrow> (error + unit) \<times> database option" where
  "storeCharacterAssets db now characterId assets =
     (case getDatabase db of
        Inl e \<Rightarrow> (Inl e, db)
      | Inr d \<Rightarrow>
          (let d1 = delete_character_assets characterId d;
               assetRecords = map (asset_record characterId (now div 1000)) assets
           in if length assetRecords > 0 then
                (case insert_batches assetRecords 0 d1 of (r, d2) \<Rightarrow> (r, Some d2))
              else (Inr (), Some d1)))"

definition getCharacterAssets :: "database option \<Rightarrow> int \<Rightarrow> error + character_asset list" where
  "getCharacterAssets db characterId =
     (case getDatabase db of
        Inl e \<Rightarrow> Inl e
      | Inr d \<Rightarrow>
          Inr (filter (\<lambda>row. ca_characterId (snd row) = characterId) (character_assets_table d)))"

subsection \<open>Sample data\<close>

definition sample_crypto :: crypto where
  "sample_crypto = \<lparr> encrypt = rev, decrypt = (\<lambda>c. Some (rev c)) \<rparr>"

definition empty_store :: auth_store where
  "empty_store = \<lparr> characters = [], last_selected_character = None \<rparr>"

definition other_row :: character_asset where
  "other_row =
     (2, \<lparr> ca_characterId = 7, ca_itemId = 2002, ca_typeId = 35, ca_quantity = 1,
          ca_locationId = 60003760, ca_locationFlag = ''Hangar'', ca_locationType = ''station'',
          ca_isSingleton = True, ca_isBlueprintCopy = False, ca_syncedAt = 1600000000 \<rparr>)"

definition old_row :: character_asset where
  "old_row =
     (1, \<lparr> ca_characterId = 42, ca_itemId = 1001, ca_typeId = 34, ca_quantity = 5,
          ca_locationId = 60003760, ca_locationFlag = ''Hangar'', ca_locationType = ''station'',
          ca_isSingleton = False, ca_isBlueprintCopy = False, ca_syncedAt = 1600000000 \<rparr>)"

definition sample_db :: database where
  "sample_db =
     \<lparr> characters_table = [], character_assets_table = [old_row, other_row],
       character_assets_seq = 2, item_types_table = [], max_variable_number = 32766 \<rparr>"



section \<open>Printing numbers and splitting strings\<close>

text \<open>
  Template literals print an integer in decimal, with a minus sign when it is negative (the
  identifiers of this program are integers well inside the range JavaScript prints this way).
  \<open>split_on c\<close> is \<open>String.prototype.split\<close> with a one-character separator.
\<close>

function show_nat :: "nat \<Rightarrow> string" where
  "show_nat n =
     (if n < 10 then [''0123456789'' ! n]
      else show_nat (n div 10) @ [''0123456789'' ! (n mod 10)])"
  by pat_completeness auto
termination
  by (relation "measure (\<lambda>n. n)") auto

declare show_nat.simps [simp del]

definition show_int :: "int \<Rightarrow> string" where
  "show_int i = (if i < 0 then CHR ''-'' # show_nat (nat (- i)) else show_nat (nat i))"

fun split_on :: "char \<Rightarrow> string \<Rightarrow> string list" where
  "split_on c [] = [[]]"
| "split_on c (x # xs) =
     (if x = c then [] # split_on c xs
      else (case split_on c xs of [] \<Rightarrow> [[x]] | w # ws \<Rightarrow> (x # w) # ws))"

section \<open>The PKCE authorisation flow (esi-auth.ts, ESIAuthManager)\<close>

text \<open>
  The manager keeps the PKCE session in two nullable fields.  \<open>initiateAuth\<close> draws a fresh
  verifier and state from the random generator (here its two arguments), stores them and
  waits for the callback server; \<open>handleCallback\<close> receives the callback URL.
\<close>

record auth_manager =
  codeVerifier :: "string option"
  authState :: "string option"

definition new_auth_manager :: auth_manager where
  "new_auth_manager = \<lparr> codeVerifier = None, authState = None \<rparr>"

definition initiateAuth :: "string \<Rightarrow> string \<Rightarrow> auth_manager \<Rightarrow> auth_manager" where
  "initiateAuth verifier state m = m\<lparr> codeVerifier := Some verifier, authState := Some state \<rparr>"

text \<open>
  The identity provider is outside the program.  \<open>post_token\<close> is the answer of the token
  endpoint to an authorisation code and a verifier, \<open>post_refresh\<close> its answer to a refresh
  token, \<open>get_verify\<close> the answer of the verification endpoint to an access token; \<open>Inl\<close>
  carries the message of the axios error.  Every request made is logged as a \<open>net_call\<close>;
  \<open>EsiRequest\<close> is a request to the ESI API, with its endpoint and \<open>Authorization\<close> header.
\<close>

record eve_auth_tokens =
  tk_access_token :: string
  tk_refresh_token :: string
  tk_expires_in :: int

record verify_response =
  CharacterID :: int
  CharacterName :: "string option"
  Scopes :: "string option"

record provider =
  post_token :: "string \<Rightarrow> string \<Rightarrow> string + eve_auth_tokens"
  post_refresh :: "string \<Rightarrow> string + eve_auth_tokens"
  get_verify :: "string \<Rightarrow> string + verify_response"

datatype net_call =
    PostToken string string
  | PostRefresh string
  | GetVerify string
  | EsiRequest string "string option"

definition exchangeCodeForTokens :: "provider \<Rightarrow> string \<Rightarrow> string \<Rightarrow> error + eve_auth_tokens" where
  "exchangeCodeForTokens pr code verifier =
     (case post_token pr code verifier of
        Inl msg \<Rightarrow> Inl (TokenExchangeFailed msg)
      | Inr tokens \<Rightarrow> Inr tokens)"

definition refreshToken :: "provider \<Rightarrow> string \<Rightarrow> error + eve_auth_tokens" where
  "refreshToken pr rt =
     (case post_refresh pr rt of
        Inl msg \<Rightarrow> Inl (TokenRefreshFailed msg)
      | Inr tokens \<Rightarrow> Inr tokens)"

text \<open>The private \<open>getCharacterInfo(accessToken)\<close>: identity, display name and granted scopes.\<close>

definition getCharacterInfo :: "provider \<Rightarrow> string \<Rightarrow> error + (int \<times> string \<times> string list)" where
  "getCharacterInfo pr accessToken =
     (case get_verify pr accessToken of
        Inl msg \<Rightarrow> Inl (CharacterInfoFailed msg)
      | Inr v \<Rightarrow>
          Inr (CharacterID v,
               (case CharacterName v of
                  None \<Rightarrow> ''Character_'' @ show_int (CharacterID v)
                | Some n \<Rightarrow> if n = [] then ''Character_'' @ show_int (CharacterID v) else n),
               (case Scopes v of
                  None \<Rightarrow> []
                | Some s \<Rightarrow> if s = [] then [] else split_on CHR '' '' s)))"

text \<open>
  The callback URL after \<open>new URL(callbackUrl)\<close>: \<open>None\<close> when the constructor throws,
  otherwise the query parameters in order.  \<open>searchParams.get\<close> returns the first value of a
  name, or null.  A string is truthy when it is present and not empty.
\<close>

type_synonym search_params = "(string \<times> string) list"

definition searchParams_get :: "search_params \<Rightarrow> string \<Rightarrow> string option" where
  "searchParams_get q name = map_of q name"

definition truthy_str :: "string option \<Rightarrow> bool" where
  "truthy_str x = (case x of None \<Rightarrow> False | Some s \<Rightarrow> s \<noteq> [])"

definition or_default :: "string option \<Rightarrow> string \<Rightarrow> string" where
  "or_default x d = (case x of None \<Rightarrow> d | Some s \<Rightarrow> if s = [] then d else s)"

text \<open>
  \<open>handleCallback\<close> returns its result, the manager afterwards, and the requests it sent to
  the provider.  \<open>now\<close> is \<open>Date.now()\<close> (read twice in the source, taken as one instant).
\<close>

definition handleCallback ::
  "provider \<Rightarrow> int \<Rightarrow> search_params option \<Rightarrow> auth_manager \<Rightarrow>
     (error + stored_character_auth) \<times> auth_manager \<times> net_call list" where
  "handleCallback pr now url m =
     (case url of
        None \<Rightarrow> (Inl InvalidUrl, m, [])
      | Some q \<Rightarrow>
          (let code = searchParams_get q ''code'';
               state = searchParams_get q ''state'';
               err = searchParams_get q ''error''
           in if truthy_str err then
                (Inl (OAuth2Error (or_default err [])
                        (or_default (searchParams_get q ''error_description'') ''Unknown error'')),
                 m, [])
              else if state \<noteq> authState m then (Inl InvalidState, m, [])
              else if \<not> truthy_str code then (Inl NoAuthorizationCode, m, [])
              else if \<not> truthy_str (codeVerifier m) then (Inl NoCodeVerifier, m, [])
              else
                (let c = or_default code []; v = or_default (codeVerifier m) []
                 in case exchangeCodeForTokens pr c v of
                      Inl e \<Rightarrow> (Inl e, m, [PostToken c v])
                    | Inr tokens \<Rightarrow>
                        (case getCharacterInfo pr (tk_access_token tokens) of
                           Inl e \<Rightarrow>
                             (Inl e, m, [PostToken c v, GetVerify (tk_access_token tokens)])
                         | Inr (cid, cname, granted) \<Rightarrow>
                             (Inr \<lparr> character_id = cid, character_name = cname,
                                    access_token = tk_access_token tokens,
                                    refresh_token = tk_refresh_token tokens,
                                    token_expires = now + tk_expires_in tokens * 1000,
                                    scopes = granted, last_updated = now \<rparr>,
                              m\<lparr> codeVerifier := None, authState := None \<rparr>,
                              [PostToken c v, GetVerify (tk_access_token tokens)])))))"

subsection \<open>Sample provider and callbacks\<close>

definition sample_provider :: provider where
  "sample_provider =
     \<lparr> post_token = (\<lambda>code verifier.
          if code = ''abc123'' \<and> verifier = ''V1''
          then Inr \<lparr> tk_access_token = ''T1'', tk_refresh_token = ''R1'', tk_expires_in = 1200 \<rparr>
          else Inl ''invalid_grant''),
       post_refresh = (\<lambda>rt.
          if rt = ''R1''
          then Inr \<lparr> tk_access_token = ''T2'', tk_refresh_token = ''R2'', tk_expires_in = 1200 \<rparr>
          else Inl ''invalid_grant''),
       get_verify = (\<lambda>t.
          if t = ''T1''
          then Inr \<lparr> CharacterID = 42, CharacterName = Some ''Pilot'', Scopes = Some ''a b'' \<rparr>
          else Inl ''401'') \<rparr>"

definition denied_callback :: search_params where
  "denied_callback = [(''error'', ''access_denied''), (''state'', ''forged'')]"

definition forged_callback :: search_params where
  "forged_callback = [(''code'', ''abc123''), (''state'', ''forged'')]"

definition good_callback :: search_params where
  "good_callback = [(''code'', ''abc123''), (''state'', ''S1'')]"

section \<open>Synchronisation with fallback to the cache (database-manager.ts, enhanced-esi-client.ts)\<close>

text \<open>
  \<open>AssetService.getCharacterAssetStats\<close>.  The number of locations counts the distinct keys
  \<open>`${locationId}-${locationFlag}`\<close>.
\<close>

record asset_stats =
  totalItems :: nat
  totalUniqueTypes :: nat
  totalLocations :: nat
  lastSyncTime :: "int option"

definition getCharacterAssetStats :: "database option \<Rightarrow> int \<Rightarrow> error + asset_stats" where
  "getCharacterAssetStats db characterId =
     (case getCharacterAssets db characterId of
        Inl e \<Rightarrow> Inl e
      | Inr [] \<Rightarrow>
          Inr \<lparr> totalItems = 0, totalUniqueTypes = 0, totalLocations = 0, lastSyncTime = None \<rparr>
      | Inr (a # as) \<Rightarrow>
          Inr \<lparr> totalItems = length (a # as),
                totalUniqueTypes = length (remdups (map (\<lambda>r. ca_typeId (snd r)) (a # as))),
                totalLocations =
                  length (remdups (map (\<lambda>r. show_int (ca_locationId (snd r)) @ ''-'' @
                                               ca_locationFlag (snd r)) (a # as))),
                lastSyncTime =
                  Some (fold max (map (\<lambda>r. ca_syncedAt (snd r)) as) (ca_syncedAt (snd a))) \<rparr>)"

text \<open>
  \<open>ItemService.getMissingItemTypes\<close> (item-service.ts): the ids of the list that are not
  cached.  The query \<open>inArray(typeId, typeIds)\<close> binds one parameter for each id.
\<close>

definition getMissingItemTypes :: "database option \<Rightarrow> int list \<Rightarrow> error + int list" where
  "getMissingItemTypes db typeIds =
     (if typeIds = [] then Inr []
      else
        (case getDatabase db of
           Inl e \<Rightarrow> Inl e
         | Inr d \<Rightarrow>
             if length typeIds > max_variable_number d then Inl TooManySqlVariables
             else Inr (filter (\<lambda>t. t \<notin> set (item_types_table d)) typeIds)))"

text \<open>\<open>[...new Set(xs)]\<close>: the distinct elements, each at its first occurrence.\<close>

definition unique_values :: "'a list \<Rightarrow> 'a list" where
  "unique_values xs = rev (remdups (rev xs))"

text \<open>
  \<open>DatabaseManager.syncCharacterAssets\<close>: store the assets, stamp the character, then look
  up which item types of the assets are not cached.  The result of the look-up is only
  logged, but an error of the look-up is rethrown like any other.
\<close>

definition syncCharacterAssets ::
  "database option \<Rightarrow> int \<Rightarrow> int \<Rightarrow> eve_asset list \<Rightarrow> (error + unit) \<times> database option" where
  "syncCharacterAssets db now characterId assets =
     (case storeCharacterAssets db now characterId assets of
        (Inl e, db1) \<Rightarrow> (Inl e, db1)
      | (Inr u, db1) \<Rightarrow>
          (case updateLastSync db1 now characterId of
             (Inl e, db2) \<Rightarrow> (Inl e, db2)
           | (Inr u', db2) \<Rightarrow>
               (case getMissingItemTypes db2 (unique_values (map type_id assets)) of
                  Inl e \<Rightarrow> (Inl e, db2)
                | Inr missingTypeIds \<Rightarrow> (Inr (), db2))))"

text \<open>
  \<open>ensureDbInitialized\<close>: when the database is not open yet, \<open>init\<close> is what
  \<open>initializeDatabase\<close> produces (it reads the database file).
\<close>

definition ensureDbInitialized ::
  "(error + database) \<Rightarrow> database option \<Rightarrow> (error + unit) \<times> database option" where
  "ensureDbInitialized init db =
     (case db of
        Some d \<Rightarrow> (Inr (), Some d)
      | None \<Rightarrow> (case init of Inl e \<Rightarrow> (Inl e, None) | Inr d \<Rightarrow> (Inr (), Some d)))"

text \<open>
  \<open>getAndSyncCharacterAssets\<close>.  \<open>fetch\<close> is the outcome of the remote call
  \<open>super.getCharacterAssets(characterId)\<close>: the assets, or the error it rejects with.
\<close>

definition getAndSyncCharacterAssets ::
  "(error + database) \<Rightarrow> (error + eve_asset list) \<Rightarrow> database option \<Rightarrow> int \<Rightarrow> int \<Rightarrow>
     (error + eve_asset list) \<times> database option" where
  "getAndSyncCharacterAssets init fetch db now characterId =
     (case ensureDbInitialized init db of
        (Inl e, db1) \<Rightarrow> (Inl e, db1)
      | (Inr u, db1) \<Rightarrow>
          (case fetch of
             Inl e \<Rightarrow> (Inl e, db1)
           | Inr assets \<Rightarrow>
               (case syncCharacterAssets db1 now characterId assets of
                  (Inl e, db2) \<Rightarrow> (Inl e, db2)
                | (Inr u', db2) \<Rightarrow> (Inr assets, db2))))"

text \<open>
  \<open>getCharacterAssetsWithEnhancedLocationData\<close> reads the identity's rows and attaches item
  and location data to each; \<open>enh\<close> is that enrichment of one row (static data and structure
  names; a failed structure look-up is caught and keeps the placeholder name).
\<close>

definition getCharacterAssetsWithEnhancedLocationData ::
  "(character_asset \<Rightarrow> 'r) \<Rightarrow> database option \<Rightarrow> int \<Rightarrow> error + 'r list" where
  "getCharacterAssetsWithEnhancedLocationData enh db characterId =
     (case getCharacterAssets db characterId of
        Inl e \<Rightarrow> Inl e
      | Inr rows \<Rightarrow> Inr (map enh rows))"

text \<open>
  \<open>cacheAge\<close> is \<open>None\<close> for JavaScript's \<open>Infinity\<close>; a \<open>lastSyncTime\<close> of null or 0 is falsy.
\<close>

definition cacheAge :: "int \<Rightarrow> int option \<Rightarrow> int option" where
  "cacheAge now_s lst = (if truthy_num lst then map_option (\<lambda>t. now_s - t) lst else None)"

definition older_than :: "int option \<Rightarrow> int \<Rightarrow> bool" where
  "older_than age limit = (case age of None \<Rightarrow> True | Some a \<Rightarrow> a > limit)"

definition getCharacterAssetsWithFallback ::
  "(error + database) \<Rightarrow> (error + eve_asset list) \<Rightarrow> (character_asset \<Rightarrow> 'r) \<Rightarrow>
     database option \<Rightarrow> int \<Rightarrow> int \<Rightarrow> bool \<Rightarrow> (error + 'r list) \<times> database option" where
  "getCharacterAssetsWithFallback init fetch enh db now characterId forceRefresh =
     (case ensureDbInitialized init db of
        (Inl e, db1) \<Rightarrow> (Inl e, db1)
      | (Inr u, db1) \<Rightarrow>
          if forceRefresh then
            (case getAndSyncCharacterAssets init fetch db1 now characterId of
               (Inl e, db2) \<Rightarrow> (Inl e, db2)
             | (Inr assets, db2) \<Rightarrow>
                 (getCharacterAssetsWithEnhancedLocationData enh db2 characterId, db2))
          else
            (case getCharacterAssetStats db1 characterId of
               Inl e \<Rightarrow> (Inl e, db1)
             | Inr stats \<Rightarrow>
                 if older_than (cacheAge (now div 1000) (lastSyncTime stats)) 1800 then
                   (case getAndSyncCharacterAssets init fetch db1 now characterId of
                      (r, db2) \<Rightarrow>
                        (getCharacterAssetsWithEnhancedLocationData enh db2 characterId, db2))
                 else (getCharacterAssetsWithEnhancedLocationData enh db1 characterId, db1)))"

text \<open>Sample databases: one whose only record set is long out of date, and an empty one.\<close>

definition stale_db :: database where
  "stale_db =
     \<lparr> characters_table = [], character_assets_table = [old_row], character_assets_seq = 1,
       item_types_table = [], max_variable_number = 32766 \<rparr>"

definition empty_db :: database where
  "empty_db =
     \<lparr> characters_table = [], character_assets_table = [], character_assets_seq = 0,
       item_types_table = [], max_variable_number = 32766 \<rparr>"

section \<open>The API client (esi-client.ts, ESIClient)\<close>

text \<open>
  A request configuration carries the endpoint, the \<open>Authorization\<close> header and the two
  custom properties \<open>_retry\<close> and \<open>_characterId\<close>.  The ESI server is outside the program: it
  is a script, the list of its answers to the successive requests the client dispatches.  An
  answer is a success with a body, an error response with a status and an optional
  \<open>retry-after\<close> header (in seconds), or no response at all.  A call that needs more answers
  than the script holds has no result (\<open>None\<close>).
\<close>

record request_config =
  rq_endpoint :: string
  rq_authorization :: "string option"
  rq_retry :: bool
  rq_characterId :: "int option"

datatype 'a http_response = Success 'a | Failure nat "nat option" | NoResponse

text \<open>\<open>refreshCharacterToken\<close>; \<open>now\<close> is \<open>Date.now()\<close>.\<close>

definition refreshCharacterToken ::
  "crypto \<Rightarrow> provider \<Rightarrow> int \<Rightarrow> int \<Rightarrow> auth_store \<Rightarrow>
     (error + unit) \<times> auth_store \<times> net_call list" where
  "refreshCharacterToken cr pr now characterId st =
     (case getCharacterAuth cr st characterId of
        None \<Rightarrow> (Inl (NoAuthenticationFound characterId), st, [])
      | Some auth \<Rightarrow>
          (case refreshToken pr (refresh_token auth) of
             Inl e \<Rightarrow> (Inl e, st, [PostRefresh (refresh_token auth)])
           | Inr newTokens \<Rightarrow>
               (case updateCharacterAuth cr characterId
                       \<lparr> upd_access_token = tk_access_token newTokens,
                         upd_refresh_token = tk_refresh_token newTokens,
                         upd_token_expires = now + tk_expires_in newTokens * 1000,
                         upd_last_updated = now \<rparr> st of
                  Inl e \<Rightarrow> (Inl e, st, [PostRefresh (refresh_token auth)])
                | Inr st' \<Rightarrow> (Inr (), st', [PostRefresh (refresh_token auth)]))))"

text \<open>
  The response interceptor's error handler.  It either hands the request back to the client
  (\<open>return this.client(originalRequest)\<close>, with the configuration and the time at which it
  is dispatched again) or rejects with the error.  The promise of the re-dispatched request is
  returned without \<open>await\<close>, so its rejection is not caught by the \<open>catch\<close> around the
  refresh.
\<close>

datatype interceptor_outcome = Redispatch request_config int | Reject error

definition after_401_block ::
  "nat \<Rightarrow> nat option \<Rightarrow> int \<Rightarrow> request_config \<Rightarrow> interceptor_outcome" where
  "after_401_block status retryAfter now originalRequest =
     (if status = 420 \<or> status = 429 then
        Redispatch originalRequest
          (now + int (case retryAfter of None \<Rightarrow> 60 | Some s \<Rightarrow> s) * 1000)
      else Reject (HttpError status))"

definition response_error_interceptor ::
  "crypto \<Rightarrow> provider \<Rightarrow> int \<Rightarrow> nat \<Rightarrow> nat option \<Rightarrow> request_config \<Rightarrow> auth_store \<Rightarrow>
     interceptor_outcome \<times> auth_store \<times> net_call list" where
  "response_error_interceptor cr pr now status retryAfter originalRequest st =
     (if status = 401 \<and> \<not> rq_retry originalRequest then
        (let originalRequest1 = originalRequest\<lparr> rq_retry := True \<rparr>
         in case rq_characterId originalRequest1 of
              None \<Rightarrow> (after_401_block status retryAfter now originalRequest1, st, [])
            | Some characterId \<Rightarrow>
                if characterId = 0 then
                  (after_401_block status retryAfter now originalRequest1, st, [])
                else
                  (case refreshCharacterToken cr pr now characterId st of
                     (Inl refreshError, st1, calls) \<Rightarrow>
                       (after_401_block status retryAfter now originalRequest1,
                        removeCharacterAuth characterId st1, calls)
                   | (Inr u, st1, calls) \<Rightarrow>
                       (case getCharacterAuth cr st1 characterId of
                          Some auth \<Rightarrow>
                            (Redispatch
                               (originalRequest1\<lparr> rq_authorization :=
                                   Some (''Bearer '' @ access_token auth) \<rparr>) now,
                             st1, calls)
                        | None \<Rightarrow>
                            (after_401_block status retryAfter now originalRequest1, st1, calls))))
      else (after_401_block status retryAfter now originalRequest, st, []))"

text \<open>
  \<open>this.client(config)\<close>: dispatch the request, take the server's next answer, and run the
  response interceptor on an error.  The result is the outcome of the call, the store
  afterwards, and the requests sent, in order.  (The request interceptor only waits in the
  pacing queue modelled above.)
\<close>

fun client_request ::
  "crypto \<Rightarrow> provider \<Rightarrow> 'a http_response list \<Rightarrow> int \<Rightarrow> request_config \<Rightarrow> auth_store \<Rightarrow>
     net_call list \<Rightarrow> ((error + 'a) \<times> auth_store \<times> net_call list) option" where
  "client_request cr pr [] now config st sent = None"
| "client_request cr pr (Success body # script) now config st sent =
     Some (Inr body, st, sent @ [EsiRequest (rq_endpoint config) (rq_authorization config)])"
| "client_request cr pr (NoResponse # script) now config st sent =
     Some (Inl NetworkFailure, st,
           sent @ [EsiRequest (rq_endpoint config) (rq_authorization config)])"
| "client_request cr pr (Failure status retryAfter # script) now config st sent =
     (case response_error_interceptor cr pr now status retryAfter config st of
        (Reject e, st1, calls) \<Rightarrow>
          Some (Inl e, st1,
                sent @ [EsiRequest (rq_endpoint config) (rq_authorization config)] @ calls)
      | (Redispatch config1 now1, st1, calls) \<Rightarrow>
          client_request cr pr script now1 config1 st1
            (sent @ [EsiRequest (rq_endpoint config) (rq_authorization config)] @ calls))"


text \<open>A call made without authentication, such as \<open>getTypeInfo\<close>.\<close>

definition makePublicRequest ::
  "crypto \<Rightarrow> provider \<Rightarrow> 'a http_response list \<Rightarrow> int \<Rightarrow> string \<Rightarrow> auth_store \<Rightarrow>
     ((error + 'a) \<times> auth_store \<times> net_call list) option" where
  "makePublicRequest cr pr script now endpoint st =
     client_request cr pr script now
       \<lparr> rq_endpoint = endpoint, rq_authorization = None, rq_retry = False,
         rq_characterId = None \<rparr> st []"




subsection \<open>A sample store\<close>







section \<open>Grouping assets by location (Inventory.tsx, groupAssetsByLocation)\<close>

text \<open>
  An asset object reaches the renderer with camelCase members (rows of the database) or with
  snake_case members (the API shape); each member may be missing.  The grouping reads three
  values, each through \<open>||\<close>: \<open>asset.itemId || asset.item_id\<close>,
  \<open>asset.locationId || asset.location_id\<close> and \<open>asset.locationFlag || asset.location_flag\<close>.
  \<open>x || y\<close> is \<open>x\<close> when \<open>x\<close> is truthy (a number other than 0, a non-empty string) and \<open>y\<close>
  otherwise, so the value read may be undefined (\<open>None\<close>); a template literal prints an
  undefined value as \<open>undefined\<close>.  The code compares objects by identity
  (\<open>parentAsset !== asset\<close>); the identity of an asset is its position in the array, so the
  assets are processed as pairs of position and asset, and \<open>assetMap\<close> maps an item id to
  such a pair.  \<open>grouped\<close> is an object with string keys: an association list in insertion
  order, with one entry per key.  \<open>processedAssets\<close> is a set of the values read as item id,
  kept as a list.
\<close>

record inv_asset =
  a_itemId :: "int option"
  a_item_id :: "int option"
  a_locationId :: "int option"
  a_location_id :: "int option"
  a_locationFlag :: "string option"
  a_location_flag :: "string option"

definition or_num :: "int option \<Rightarrow> int option \<Rightarrow> int option" where
  "or_num x y = (if truthy_num x then x else y)"

definition or_str :: "string option \<Rightarrow> string option \<Rightarrow> string option" where
  "or_str x y = (if truthy_str x then x else y)"

definition itemId_of :: "inv_asset \<Rightarrow> int option" where
  "itemId_of asset = or_num (a_itemId asset) (a_item_id asset)"

definition locationId_of :: "inv_asset \<Rightarrow> int option" where
  "locationId_of asset = or_num (a_locationId asset) (a_location_id asset)"

definition locationFlag_of :: "inv_asset \<Rightarrow> string option" where
  "locationFlag_of asset = or_str (a_locationFlag asset) (a_location_flag asset)"

definition print_num :: "int option \<Rightarrow> string" where
  "print_num x = (case x of None \<Rightarrow> ''undefined'' | Some n \<Rightarrow> show_int n)"

definition print_str :: "string option \<Rightarrow> string" where
  "print_str x = (case x of None \<Rightarrow> ''undefined'' | Some s \<Rightarrow> s)"

type_synonym grouped = "(string \<times> inv_asset list) list"

type_synonym asset_map = "int \<Rightarrow> (nat \<times> inv_asset) option"

definition locationKey :: "inv_asset \<Rightarrow> string" where
  "locationKey asset =
     print_num (locationId_of asset) @ ''-'' @ print_str (locationFlag_of asset)"

definition parentKey :: "inv_asset \<Rightarrow> string" where
  "parentKey parentAsset =
     print_num (locationId_of parentAsset) @ ''-'' @ print_str (locationFlag_of parentAsset) @
     ''-ship-'' @ print_num (itemId_of parentAsset)"

definition enumerate_assets :: "inv_asset list \<Rightarrow> (nat \<times> inv_asset) list" where
  "enumerate_assets assets = zip [0 ..< length assets] assets"

text \<open>\<open>if (itemId) assetMap.set(itemId, asset)\<close>, and \<open>assetMap.get(locationId)\<close>.\<close>

definition assetMap_set :: "nat \<times> inv_asset \<Rightarrow> asset_map \<Rightarrow> asset_map" where
  "assetMap_set x m =
     (case itemId_of (snd x) of
        None \<Rightarrow> m
      | Some n \<Rightarrow> if n \<noteq> 0 then m(n \<mapsto> x) else m)"

definition assetMap_get :: "asset_map \<Rightarrow> int option \<Rightarrow> (nat \<times> inv_asset) option" where
  "assetMap_get m locationId = (case locationId of None \<Rightarrow> None | Some l \<Rightarrow> m l)"

definition build_assetMap :: "inv_asset list \<Rightarrow> asset_map" where
  "build_assetMap assets = fold assetMap_set (enumerate_assets assets) Map.empty"

text \<open>\<open>grouped[key]\<close>, the empty list standing for \<open>undefined\<close>, and \<open>grouped[key].push(asset)\<close>.\<close>

definition group_items :: "grouped \<Rightarrow> string \<Rightarrow> inv_asset list" where
  "group_items g k = (case map_of g k of None \<Rightarrow> [] | Some xs \<Rightarrow> xs)"

definition group_push :: "string \<Rightarrow> inv_asset \<Rightarrow> grouped \<Rightarrow> grouped" where
  "group_push k asset g = map (\<lambda>kv. if fst kv = k then (fst kv, snd kv @ [asset]) else kv) g"

text \<open>The \<open>else\<close> branch of the loop body: a regular asset, not fitted to anything.\<close>

definition regular_asset ::
  "inv_asset \<Rightarrow> grouped \<times> int option list \<Rightarrow> grouped \<times> int option list" where
  "regular_asset asset st =
     (let g = fst st; processedAssets = snd st;
          g1 = (if map_of g (locationKey asset) = None then g @ [(locationKey asset, [])] else g)
      in (group_push (locationKey asset) asset g1, itemId_of asset # processedAssets))"

text \<open>The \<open>then\<close> branch: a fitted item, grouped under its parent.\<close>

definition fitted_item ::
  "inv_asset \<Rightarrow> inv_asset \<Rightarrow> grouped \<times> int option list \<Rightarrow> grouped \<times> int option list" where
  "fitted_item parentAsset asset st =
     (let g = fst st; processedAssets = snd st;
          g1 = (if map_of g (parentKey parentAsset) = None
                then g @ [(parentKey parentAsset, [parentAsset])] else g);
          p1 = (if map_of g (parentKey parentAsset) = None
                then itemId_of parentAsset # processedAssets else processedAssets)
      in (group_push (parentKey parentAsset) asset g1, itemId_of asset # p1))"

text \<open>The body of \<open>assets.forEach\<close>, for the asset at position \<open>fst x\<close>.\<close>

definition group_step ::
  "asset_map \<Rightarrow> nat \<times> inv_asset \<Rightarrow> grouped \<times> int option list \<Rightarrow>
     grouped \<times> int option list" where
  "group_step m x st =
     (if itemId_of (snd x) \<in> set (snd st) then st
      else
        (case assetMap_get m (locationId_of (snd x)) of
           None \<Rightarrow> regular_asset (snd x) st
         | Some parent \<Rightarrow>
             if fst parent \<noteq> fst x then fitted_item (snd parent) (snd x) st
             else regular_asset (snd x) st))"

definition groupAssetsByLocation :: "inv_asset list \<Rightarrow> grouped" where
  "groupAssetsByLocation assets =
     fst (fold (group_step (build_assetMap assets)) (enumerate_assets assets) ([], []))"

subsection \<open>Sample assets\<close>

text \<open>
  Rows of the database, with camelCase members: a ship in a station hangar, a container in
  the ship's cargo hold, and an item in the container; and a record that names itself as its
  location, with an item inside it.
\<close>

definition db_row :: "int \<Rightarrow> int \<Rightarrow> string \<Rightarrow> inv_asset" where
  "db_row itemId locationId locationFlag =
     \<lparr> a_itemId = Some itemId, a_item_id = None, a_locationId = Some locationId,
       a_location_id = None, a_locationFlag = Some locationFlag, a_location_flag = None \<rparr>"

definition ship :: inv_asset where
  "ship = db_row 1 60003760 ''Hangar''"

definition container :: inv_asset where
  "container = db_row 2 1 ''Cargo''"

definition ore :: inv_asset where
  "ore = db_row 3 2 ''Unlocked''"

definition self_located :: inv_asset where
  "self_located = db_row 7 7 ''Hangar''"

definition inside_self_located :: inv_asset where
  "inside_self_located = db_row 8 7 ''Cargo''"

section \<open>Properties\<close>

subsection \<open>Security classification\<close>

lemma securityClass_known:
  assumes "rl_solarSystem rl = Some sys" and "ss_security sys = Some s"
  shows "securityClass rl =
           (if s \<ge> 0.5 then ''high-sec'' else if s > 0 then ''low-sec'' else ''null-sec'')"
  using assms by (simp add: securityClass_def)

text \<open>
  C7, as stated, fails for the class \<open>formatLocationInfo\<close> returns: a player structure in a
  solar system of security 0.9 is given the class \<open>structure\<close>, and a station whose region is
  not resolved is given the class \<open>unknown\<close>, although the security value is known in both.
\<close>

theorem security_class_counterexample:
  "rl_solarSystem (structure_with_security 0.9) =
     Some \<lparr> ss_id = 30000144, ss_name = ''Perimeter'', ss_security = Some 0.9 \<rparr> \<and>
   formatLocationInfo_className (Some (structure_with_security 0.9)) = Some ''structure'' \<and>
   rl_solarSystem (station_without_region 0.9) =
     Some \<lparr> ss_id = 30000142, ss_name = ''Jita'', ss_security = Some 0.9 \<rparr> \<and>
   formatLocationInfo_className (Some (station_without_region 0.9)) = Some ''unknown''"
  by (simp add: formatLocationInfo_className_def structure_with_security_def
        station_without_region_def)

text \<open>
  C7, amended.  For a resolved location whose solar system has a known security value \<open>s\<close>,
  the class \<open>formatLocationInfo\<close> returns is the security classification exactly when the
  location is a station or a solar system and its region is resolved: high-security if
  \<open>s \<ge> 0.5\<close>, low-security if \<open>0 < s < 0.5\<close>, null-security if \<open>s \<le> 0\<close>.  A station or solar
  system without a resolved region gets the class \<open>unknown\<close>, a player structure the class
  \<open>structure\<close>, and every other location type the class \<open>unknown\<close>, whatever the security.
\<close>

theorem security_classification:
  assumes "rl_solarSystem rl = Some sys" and "ss_security sys = Some s"
  shows "((rl_locationType rl = ''station'' \<or> rl_locationType rl = ''solar_system'') \<and>
            rl_region rl \<noteq> None \<longrightarrow>
            (s \<ge> 0.5 \<longrightarrow> formatLocationInfo_className (Some rl) = Some ''high-sec'') \<and>
            (0 < s \<and> s < 0.5 \<longrightarrow> formatLocationInfo_className (Some rl) = Some ''low-sec'') \<and>
            (s \<le> 0 \<longrightarrow> formatLocationInfo_className (Some rl) = Some ''null-sec'')) \<and>
         ((rl_locationType rl = ''station'' \<or> rl_locationType rl = ''solar_system'') \<and>
            rl_region rl = None \<longrightarrow>
            formatLocationInfo_className (Some rl) = Some ''unknown'') \<and>
         (rl_locationType rl = ''structure'' \<longrightarrow>
            formatLocationInfo_className (Some rl) = Some ''structure'') \<and>
         (rl_locationType rl \<noteq> ''station'' \<and> rl_locationType rl \<noteq> ''solar_system'' \<and>
            rl_locationType rl \<noteq> ''structure'' \<longrightarrow>
            formatLocationInfo_className (Some rl) = Some ''unknown'')"
proof -
  have cls: "securityClass rl =
               (if s \<ge> 0.5 then ''high-sec'' else if s > 0 then ''low-sec'' else ''null-sec'')"
    using assms by (rule securityClass_known)
  show ?thesis
    using assms cls
    by (auto simp: formatLocationInfo_className_def split: option.splits)
qed

theorem security_classification_witness:
  "formatLocationInfo_className (Some (station_with_security 0.5)) = Some ''high-sec'' \<and>
   formatLocationInfo_className (Some (station_with_security 0.49999)) = Some ''low-sec'' \<and>
   formatLocationInfo_className (Some (station_with_security 0)) = Some ''null-sec'' \<and>
   formatLocationInfo_className (Some (station_with_security (- 1))) = Some ''null-sec'' \<and>
   formatLocationInfo_className (Some (station_without_region 0.5)) = Some ''unknown'' \<and>
   formatLocationInfo_className (Some (structure_with_security 0.5)) = Some ''structure'' \<and>
   formatLocationInfo_className
     (Some ((station_with_security 0.5)\<lparr> rl_locationType := ''unknown'' \<rparr>)) = Some ''unknown''"
  using
    security_classification [of "station_with_security 0.5"
       "\<lparr> ss_id = 30000142, ss_name = ''Jita'', ss_security = Some 0.5 \<rparr>" "0.5"]
    security_classification [of "station_with_security 0.49999"
       "\<lparr> ss_id = 30000142, ss_name = ''Jita'', ss_security = Some 0.49999 \<rparr>" "0.49999"]
    security_classification [of "station_with_security 0"
       "\<lparr> ss_id = 30000142, ss_name = ''Jita'', ss_security = Some 0 \<rparr>" "0"]
    security_classification [of "station_with_security (- 1)"
       "\<lparr> ss_id = 30000142, ss_name = ''Jita'', ss_security = Some (- 1) \<rparr>" "- 1"]
    security_classification [of "station_without_region 0.5"
       "\<lparr> ss_id = 30000142, ss_name = ''Jita'', ss_security = Some 0.5 \<rparr>" "0.5"]
    security_classification [of "structure_with_security 0.5"
       "\<lparr> ss_id = 30000144, ss_name = ''Perimeter'', ss_security = Some 0.5 \<rparr>" "0.5"]
    security_classification [of "(station_with_security 0.5)\<lparr> rl_locationType := ''unknown'' \<rparr>"
       "\<lparr> ss_id = 30000142, ss_name = ''Jita'', ss_security = Some 0.5 \<rparr>" "0.5"]
  by (simp add: station_with_security_def station_without_region_def
        structure_with_security_def)

subsection \<open>The pacing queue is first-in first-out\<close>

lemma processRateLimitQueue_keeps_order:
  "released (processRateLimitQueue st) @ rateLimitQueue (processRateLimitQueue st) =
     released st @ rateLimitQueue st"
  by (simp add: processRateLimitQueue_def split: list.splits)

lemma queue_step_order:
  "released (queue_step st ev) @ rateLimitQueue (queue_step st ev) =
     released st @ rateLimitQueue st @ admitted [ev]"
  by (cases ev)
     (simp_all add: addToRateLimitQueue_def timer_fires_def processRateLimitQueue_keeps_order)

lemma admitted_append: "admitted (evs @ evs') = admitted evs @ admitted evs'"
  by (induction evs rule: admitted.induct) simp_all

lemma foldl_queue_order:
  "released (foldl queue_step st evs) @ rateLimitQueue (foldl queue_step st evs) =
     released st @ rateLimitQueue st @ admitted evs"
proof (induction evs arbitrary: st)
  case Nil
  show ?case by simp
next
  case (Cons ev evs)
  have "released (foldl queue_step (queue_step st ev) evs) @
          rateLimitQueue (foldl queue_step (queue_step st ev) evs) =
        released (queue_step st ev) @ rateLimitQueue (queue_step st ev) @ admitted evs"
    by (rule Cons.IH)
  also have "\<dots> = (released st @ rateLimitQueue st @ admitted [ev]) @ admitted evs"
    using queue_step_order [of st ev] by simp
  also have "\<dots> = released st @ rateLimitQueue st @ admitted (ev # evs)"
    using admitted_append [of "[ev]" evs] by simp
  finally show ?case by simp
qed

lemma processRateLimitQueue_released_grows:
  "prefix (released st) (released (processRateLimitQueue st))"
  by (simp add: processRateLimitQueue_def split: list.splits)

lemma queue_step_released_grows: "prefix (released st) (released (queue_step st ev))"
proof (cases ev)
  case (Admit r)
  then show ?thesis
    using processRateLimitQueue_released_grows
            [of "st\<lparr> rateLimitQueue := rateLimitQueue st @ [r] \<rparr>"]
    by (simp add: addToRateLimitQueue_def)
next
  case TimerFires
  then show ?thesis
    using processRateLimitQueue_released_grows
            [of "st\<lparr> pendingTimers := pendingTimers st - 1, isProcessingQueue := False \<rparr>"]
    by (simp add: timer_fires_def)
qed

lemma foldl_released_grows: "prefix (released st) (released (foldl queue_step st evs))"
proof (induction evs arbitrary: st)
  case Nil
  show ?case by simp
next
  case (Cons ev evs)
  from queue_step_released_grows [of st ev] Cons.IH [of "queue_step st ev"]
  show ?case by (auto intro: prefix_order.trans)
qed

text \<open>
  C9.  Requests admitted to the dispatch queue are released in admission order: after every
  sequence of admissions and timer events, the requests released so far followed by the
  requests still waiting are exactly the admitted requests in admission order, and what has
  been released is never taken back or reordered by later events.
\<close>

theorem queue_releases_in_admission_order:
  "released (run_queue evs) @ rateLimitQueue (run_queue evs) = admitted evs \<and>
   prefix (released (run_queue evs)) (admitted evs) \<and>
   prefix (released (run_queue evs)) (released (run_queue (evs @ evs')))"
proof -
  have a: "released (run_queue evs) @ rateLimitQueue (run_queue evs) = admitted evs"
    using foldl_queue_order [of initial_queue evs]
    by (simp add: run_queue_def initial_queue_def)
  have b: "prefix (released (run_queue evs)) (admitted evs)"
    using a by (metis prefixI)
  have c: "prefix (released (run_queue evs)) (released (run_queue (evs @ evs')))"
    using foldl_released_grows [of "foldl queue_step initial_queue evs" evs']
    by (simp add: run_queue_def)
  from a b c show ?thesis by simp
qed

subsection \<open>A missing credential counts as expired\<close>

text \<open>
  C10, as stated, fails for the character service: its look-up goes through \<open>getDatabase\<close>,
  which throws while the database is not initialised, so for an identity with no stored
  credential the expiry check raises an error instead of returning true.
\<close>

theorem expiry_check_raises_counterexample:
  "42 \<notin> fst ` set (characters empty_store) \<and>
   CharacterService_isTokenExpired None 1700000000000 42 = Inl DatabaseNotInitialized"
  by (simp add: empty_store_def CharacterService_isTokenExpired_def getCharacter_def
        getDatabase_def)

text \<open>
  C10, amended.  For an identity with no stored credential, \<open>isTokenExpired\<close> of the auth
  store returns true and raises no error; \<open>isTokenExpired\<close> of the database-backed
  character service returns true when the database is initialised, and raises
  ``Database not initialized'' when it is not.
\<close>

theorem missing_credential_is_expired:
  assumes "cid \<notin> fst ` set (characters st)"
      and "cid \<notin> ch_characterId ` set (characters_table d)"
  shows "AuthStore_isTokenExpired cr st now cid \<and>
         CharacterService_isTokenExpired (Some d) now' cid = Inr True \<and>
         CharacterService_isTokenExpired None now' cid = Inl DatabaseNotInitialized"
proof -
  from assms(1) have "map_of (characters st) cid = None"
    by (simp add: map_of_eq_None_iff)
  then have a: "AuthStore_isTokenExpired cr st now cid"
    by (simp add: AuthStore_isTokenExpired_def getCharacterAuth_def)
  from assms(2) have "find (\<lambda>r. ch_characterId r = cid) (characters_table d) = None"
    by (auto simp: find_None_iff)
  then have b: "CharacterService_isTokenExpired (Some d) now' cid = Inr True"
    by (simp add: CharacterService_isTokenExpired_def getCharacter_def getDatabase_def)
  have c: "CharacterService_isTokenExpired None now' cid = Inl DatabaseNotInitialized"
    by (simp add: CharacterService_isTokenExpired_def getCharacter_def getDatabase_def)
  from a b c show ?thesis by simp
qed

theorem missing_credential_is_expired_witness:
  "42 \<notin> fst ` set (characters empty_store) \<and>
   42 \<notin> ch_characterId ` set (characters_table sample_db) \<and>
   AuthStore_isTokenExpired sample_crypto empty_store 1700000000000 42 \<and>
   CharacterService_isTokenExpired (Some sample_db) 1700000000000 42 = Inr True \<and>
   CharacterService_isTokenExpired None 1700000000000 42 = Inl DatabaseNotInitialized"
proof -
  have h1: "42 \<notin> fst ` set (characters empty_store)" by (simp add: empty_store_def)
  have h2: "42 \<notin> ch_characterId ` set (characters_table sample_db)" by (simp add: sample_db_def)
  from missing_credential_is_expired [OF h1 h2] h1 h2 show ?thesis by simp
qed

subsection \<open>A synchronisation replaces the cached record set\<close>





subsection \<open>The callback of the authorisation flow\<close>

lemma handleCallback_failure_keeps_session:
  "fst (handleCallback pr now url m) = Inl e \<Longrightarrow> fst (snd (handleCallback pr now url m)) = m"
  by (auto simp: handleCallback_def Let_def split: option.splits sum.splits if_splits prod.splits)

lemma handleCallback_success_clears_session:
  "fst (handleCallback pr now url m) = Inr a \<Longrightarrow>
     fst (snd (handleCallback pr now url m)) = \<lparr> codeVerifier = None, authState = None \<rparr>"
  by (auto simp: handleCallback_def Let_def split: option.splits sum.splits if_splits prod.splits)

text \<open>
  C1, as stated, fails: a callback whose state differs from the issued one and which also
  carries an \<open>error\<close> parameter is rejected with the provider's OAuth2 error, not with the
  CSRF error, because the \<open>error\<close> parameter is examined first.
\<close>

theorem csrf_error_counterexample:
  "searchParams_get denied_callback ''state'' \<noteq>
     authState (initiateAuth ''V1'' ''S1'' new_auth_manager) \<and>
   handleCallback sample_provider 1700000000000 (Some denied_callback)
       (initiateAuth ''V1'' ''S1'' new_auth_manager) =
     (Inl (OAuth2Error ''access_denied'' ''Unknown error''),
      initiateAuth ''V1'' ''S1'' new_auth_manager, [])"
  by (simp add: handleCallback_def denied_callback_def initiateAuth_def new_auth_manager_def
        searchParams_get_def truthy_str_def or_default_def)

text \<open>
  C1, amended.  For every callback URL whose \<open>state\<close> parameter differs from the state issued
  for the current PKCE session, \<open>handleCallback\<close> fails without sending any request to the
  provider; the failure is the CSRF error, unless the callback carries a non-empty \<open>error\<close>
  parameter, in which case it is the provider's OAuth2 error.
\<close>

theorem state_mismatch_rejected_before_exchange:
  assumes "searchParams_get q ''state'' \<noteq> authState m"
  shows "fst (handleCallback pr now (Some q) m) =
           (if truthy_str (searchParams_get q ''error'')
            then Inl (OAuth2Error (or_default (searchParams_get q ''error'') [])
                       (or_default (searchParams_get q ''error_description'') ''Unknown error''))
            else Inl InvalidState) \<and>
         snd (snd (handleCallback pr now (Some q) m)) = []"
  using assms by (simp add: handleCallback_def Let_def)

theorem state_mismatch_rejected_before_exchange_witness:
  "searchParams_get forged_callback ''state'' \<noteq>
     authState (initiateAuth ''V1'' ''S1'' new_auth_manager) \<and>
   fst (handleCallback sample_provider 1700000000000 (Some forged_callback)
          (initiateAuth ''V1'' ''S1'' new_auth_manager)) = Inl InvalidState \<and>
   snd (snd (handleCallback sample_provider 1700000000000 (Some forged_callback)
               (initiateAuth ''V1'' ''S1'' new_auth_manager))) = []"
proof -
  have h: "searchParams_get forged_callback ''state'' \<noteq>
             authState (initiateAuth ''V1'' ''S1'' new_auth_manager)"
    by (simp add: forged_callback_def searchParams_get_def initiateAuth_def)
  have "\<not> truthy_str (searchParams_get forged_callback ''error'')"
    by (simp add: forged_callback_def searchParams_get_def truthy_str_def)
  with state_mismatch_rejected_before_exchange [OF h, of sample_provider 1700000000000] h
  show ?thesis by simp
qed

text \<open>
  C4.  The claim asks that the PKCE session be cleared on every exit of the flow.  The code
  clears it on the successful exit only.  After a callback rejected for a state mismatch the
  verifier and the state are still in memory, and a later callback that presents the old state
  is accepted and exchanged with the old verifier.
\<close>

theorem session_survives_failed_callback:
  "handleCallback sample_provider 1700000000000 (Some forged_callback)
       (initiateAuth ''V1'' ''S1'' new_auth_manager) =
     (Inl InvalidState, \<lparr> codeVerifier = Some ''V1'', authState = Some ''S1'' \<rparr>, []) \<and>
   handleCallback sample_provider 1700000000000 (Some good_callback)
       \<lparr> codeVerifier = Some ''V1'', authState = Some ''S1'' \<rparr> =
     (Inr \<lparr> character_id = 42, character_name = ''Pilot'', access_token = ''T1'',
            refresh_token = ''R1'', token_expires = 1700001200000, scopes = [''a'', ''b''],
            last_updated = 1700000000000 \<rparr>,
      \<lparr> codeVerifier = None, authState = None \<rparr>,
      [PostToken ''abc123'' ''V1'', GetVerify ''T1''])"
  by (simp add: handleCallback_def forged_callback_def good_callback_def initiateAuth_def
        new_auth_manager_def searchParams_get_def truthy_str_def or_default_def
        exchangeCodeForTokens_def getCharacterInfo_def sample_provider_def)

subsection \<open>Fetching with fallback to the cache\<close>

lemma ensureDbInitialized_open: "ensureDbInitialized init (Some d) = (Inr (), Some d)"
  by (simp add: ensureDbInitialized_def)

lemma getAndSync_fetch_failure:
  "getAndSyncCharacterAssets init (Inl e) (Some d) now cid = (Inl e, Some d)"
  by (simp add: getAndSyncCharacterAssets_def ensureDbInitialized_open)

text \<open>
  C3, as stated, fails in both halves.  With nothing cached and \<open>forceRefresh\<close> false, a
  failed fetch is swallowed and the empty list is returned; with a stale cache and
  \<open>forceRefresh\<close> true, the failure is propagated and the cached records are not returned.
\<close>

theorem fallback_counterexample:
  "getCharacterAssetsWithFallback (Inl DatabaseNotInitialized) (Inl NetworkFailure) id
       (Some empty_db) 1700000000000 42 False = (Inr [], Some empty_db) \<and>
   getCharacterAssets (Some stale_db) 42 = Inr [old_row] \<and>
   getCharacterAssetsWithFallback (Inl DatabaseNotInitialized) (Inl NetworkFailure) id
       (Some stale_db) 1700000000000 42 True = (Inl NetworkFailure, Some stale_db)"
  by (simp add: getCharacterAssetsWithFallback_def ensureDbInitialized_open
        getAndSync_fetch_failure getCharacterAssetStats_def getCharacterAssets_def
        getDatabase_def empty_db_def stale_db_def old_row_def cacheAge_def older_than_def
        truthy_num_def getCharacterAssetsWithEnhancedLocationData_def)

text \<open>
  C3, amended.  Under a remote-fetch failure, on an open database:
  with \<open>forceRefresh\<close> the failure is propagated, whether or not records are cached; without
  \<open>forceRefresh\<close> the failure is never propagated and the cached records of the identity are
  returned (the empty list when none are cached).  The database is left as it was.
\<close>

theorem fallback_under_fetch_failure:
  "getCharacterAssetsWithFallback init (Inl e) enh (Some d) now cid forceRefresh =
     ((if forceRefresh then Inl e
       else Inr (map enh (filter (\<lambda>row. ca_characterId (snd row) = cid)
                            (character_assets_table d)))),
      Some d)"
proof (cases forceRefresh)
  case True
  then show ?thesis
    by (simp add: getCharacterAssetsWithFallback_def ensureDbInitialized_open
          getAndSync_fetch_failure)
next
  case False
  have "\<exists>stats. getCharacterAssetStats (Some d) cid = Inr stats"
    by (cases "filter (\<lambda>row. ca_characterId (snd row) = cid) (character_assets_table d)")
       (simp_all add: getCharacterAssetStats_def getCharacterAssets_def getDatabase_def)
  then obtain stats where st: "getCharacterAssetStats (Some d) cid = Inr stats" ..
  have rows: "getCharacterAssetsWithEnhancedLocationData enh (Some d) cid =
      Inr (map enh (filter (\<lambda>row. ca_characterId (snd row) = cid) (character_assets_table d)))"
    by (simp add: getCharacterAssetsWithEnhancedLocationData_def getCharacterAssets_def
          getDatabase_def)
  from False st rows show ?thesis
    by (simp add: getCharacterAssetsWithFallback_def ensureDbInitialized_open
          getAndSync_fetch_failure)
qed

subsection \<open>A 401 response: one refresh, one retry\<close>
















subsection \<open>Grouping: the sample record sets\<close>

lemma db_row_values:
  "itemId_of (db_row i l f) = (if i \<noteq> 0 then Some i else None)"
  "locationId_of (db_row i l f) = (if l \<noteq> 0 then Some l else None)"
  "locationFlag_of (db_row i l f) = (if f \<noteq> [] then Some f else None)"
  by (simp_all add: db_row_def itemId_of_def locationId_of_def locationFlag_of_def or_num_def
        or_str_def truthy_num_def truthy_str_def)

lemma falsy_values_print_undefined:
  "locationKey (db_row 5 0 []) = ''undefined-undefined''"
  by (simp add: locationKey_def db_row_values print_num_def print_str_def)

lemma sample_ids:
  "itemId_of ore = Some 3" "locationId_of ore = Some 2" "itemId_of container = Some 2"
  "locationId_of container = Some 1" "itemId_of ship = Some 1"
  "locationId_of ship = Some 60003760"
  "itemId_of self_located = Some 7" "locationId_of self_located = Some 7"
  "itemId_of inside_self_located = Some 8" "locationId_of inside_self_located = Some 7"
  by (simp_all add: ship_def container_def ore_def self_located_def inside_self_located_def
        db_row_values)

lemma sample_keys:
  "locationKey ship = ''60003760-Hangar''"
  "parentKey ship = ''60003760-Hangar-ship-1''"
  "locationKey container = ''1-Cargo''"
  "parentKey container = ''1-Cargo-ship-2''"
  "locationKey ore = ''2-Unlocked''"
  "locationKey self_located = ''7-Hangar''"
  "parentKey self_located = ''7-Hangar-ship-7''"
  "locationKey inside_self_located = ''7-Cargo''"
  by (simp_all add: locationKey_def parentKey_def ship_def container_def ore_def
        self_located_def inside_self_located_def db_row_values print_num_def print_str_def
        show_int_def show_nat.simps)

lemma assetMap_item_first:
  "build_assetMap [ore, container, ship] =
     [3 \<mapsto> (0, ore), 2 \<mapsto> (Suc 0, container), 1 \<mapsto> (Suc (Suc 0), ship)]"
  by (simp add: build_assetMap_def enumerate_assets_def assetMap_set_def upt_rec sample_ids)

lemma assetMap_container_first:
  "build_assetMap [container, ore, ship] =
     [2 \<mapsto> (0, container), 3 \<mapsto> (Suc 0, ore), 1 \<mapsto> (Suc (Suc 0), ship)]"
  by (simp add: build_assetMap_def enumerate_assets_def assetMap_set_def upt_rec sample_ids)



lemma group_item_first:
  "groupAssetsByLocation [ore, container, ship] =
     [(''1-Cargo-ship-2'', [container, ore]), (''60003760-Hangar'', [ship])]"
  by (simp add: groupAssetsByLocation_def assetMap_item_first enumerate_assets_def upt_rec
        group_step_def assetMap_get_def sample_ids sample_keys fitted_item_def
        regular_asset_def group_push_def Let_def)

lemma group_container_first:
  "groupAssetsByLocation [container, ore, ship] =
     [(''60003760-Hangar-ship-1'', [ship, container]), (''1-Cargo-ship-2'', [container, ore])]"
  by (simp add: groupAssetsByLocation_def assetMap_container_first enumerate_assets_def upt_rec
        group_step_def assetMap_get_def sample_ids sample_keys fitted_item_def
        regular_asset_def group_push_def Let_def)



subsection \<open>Grouping: containment\<close>

text \<open>
  C5.  The claim asks that a record \<open>A\<close> whose container is another record \<open>B\<close> be placed in
  the group keyed by \<open>B\<close>.  The code does so only while \<open>A\<close> is not yet in
  \<open>processedAssets\<close>, and that set also receives every record emitted as the head of a
  parent group.  With an item listed before its container and the container inside a ship,
  the container is emitted as the head of its own group when the item is reached, is skipped
  when its own turn comes, and the ship's group never exists; listed in the other order, the
  same records are grouped as the claim says.
\<close>

theorem nested_container_skipped:
  "locationId_of container = itemId_of ship \<and> container \<noteq> ship \<and>
   groupAssetsByLocation [ore, container, ship] =
     [(''1-Cargo-ship-2'', [container, ore]), (''60003760-Hangar'', [ship])] \<and>
   group_items (groupAssetsByLocation [ore, container, ship]) (parentKey ship) = [] \<and>
   groupAssetsByLocation [container, ore, ship] =
     [(''60003760-Hangar-ship-1'', [ship, container]), (''1-Cargo-ship-2'', [container, ore])]"
  by (simp add: group_item_first group_container_first sample_ids sample_keys group_items_def)
     (simp add: container_def ship_def db_row_def)

subsection \<open>Grouping: a record that is its own location\<close>


subsection \<open>A 401 on a call without authentication\<close>

lemma public_request_401_not_retried:
  "makePublicRequest cr pr (Failure 401 ra # rest) now endpoint st =
     Some (Inl (HttpError 401), st, [EsiRequest endpoint None])"
  by (simp add: makePublicRequest_def response_error_interceptor_def after_401_block_def Let_def)

end
